theory Spec2Isabelle
  imports Main "HOL-Library.Word"
begin

section \<open>Data model\<close>

text \<open>
  The file \<^verbatim>\<open>flatbuffer_serializer_jit.cpp\<close> is the glue between the JIT module
  representation and the flatbuffer artifact. Every function it calls lives in another
  translation unit; the functions below take those collaborators as the fields of a
  record, with the argument lists of the C++ calls, and reproduce the order of the
  calls and the data that flows between them.
\<close>

type_synonym byte = "8 word"

text \<open>\<^verbatim>\<open>ExtraFilesMap\<close> is \<^verbatim>\<open>std::unordered_map<std::string, std::string>\<close>.\<close>

type_synonym ExtraFilesMap = "string \<rightharpoonup> string"

text \<open>
  Modelled from the spec: the kinds of failure are those of the error taxonomy; the
  source file names none. The C++ has no error return: a collaborator that fails throws,
  and the exception leaves the calling function at that point. \<open>OutOfBoundsRead\<close> is
  no exception: it stands for a read outside the buffer, where the behaviour of the C++
  is undefined and the call does not go on as written.
\<close>

datatype error =
  IOError | FormatError | UnsupportedVersionError | UpgradeError | OutOfBoundsRead

text \<open>
  Modelled from the spec: the class \<^verbatim>\<open>Module\<close> is declared outside the source
  file. A module is the object it wraps and the handle on a backing buffer that
  \<^verbatim>\<open>set_delete_memory\<close> attaches to it, if one was attached.
\<close>

record ('iv, 'ptr) Module =
  module_ivalue :: 'iv
  mem_to_delete :: "'ptr option"

text \<open>
  The process state a load can touch: the globals behind the collaborators (the upgrader
  registry among them) and, for every buffer handed around as a
  \<^verbatim>\<open>std::shared_ptr<char>\<close>, the number of its owners.
\<close>

record ('g, 'ptr) process =
  globals :: 'g
  use_count :: "'ptr \<Rightarrow> nat"

subsection \<open>Shared ownership of the backing buffer\<close>

text \<open>
  Modelled from the spec: the shared pointer is not in the source file. Ownership of the
  backing buffer is reference counted; a copy of the handle adds an owner.
\<close>

definition sp_acquire :: "'ptr \<Rightarrow> ('ptr \<Rightarrow> nat) \<Rightarrow> ('ptr \<Rightarrow> nat)" where
  "sp_acquire p c = c(p := Suc (c p))"

text \<open>
  Modelled from the spec: a handle that is destroyed or overwritten removes an owner.
\<close>

definition sp_release :: "'ptr \<Rightarrow> ('ptr \<Rightarrow> nat) \<Rightarrow> ('ptr \<Rightarrow> nat)" where
  "sp_release p c = c(p := c p - 1)"

text \<open>
  Modelled from the spec: the last holder releases, so the memory is valid exactly while
  the buffer has an owner.
\<close>

definition buffer_valid :: "'ptr \<Rightarrow> ('ptr \<Rightarrow> nat) \<Rightarrow> bool" where
  "buffer_valid p c = (0 < c p)"

text \<open>
  Modelled from the spec: \<^verbatim>\<open>Module::set_delete_memory\<close> is not in the source
  file. \<^verbatim>\<open>m.set_delete_memory(data)\<close> attaches the buffer to the module, which
  becomes one more owner; the handle the module held before, if any, gives up its share.
\<close>

definition set_delete_memory ::
  "('iv, 'ptr) Module \<Rightarrow> 'ptr \<Rightarrow> ('ptr \<Rightarrow> nat) \<Rightarrow> ('iv, 'ptr) Module \<times> ('ptr \<Rightarrow> nat)" where
  "set_delete_memory m delete_mem c =
     (m\<lparr>mem_to_delete := Some delete_mem\<rparr>,
      (case mem_to_delete m of
         None \<Rightarrow> sp_acquire delete_mem c
       | Some old \<Rightarrow> sp_release old (sp_acquire delete_mem c)))"

text \<open>
  Modelled from the spec: the destructor of \<^verbatim>\<open>Module\<close> is not in the source file.
  Destroying a module releases its share of the buffer attached to it.
\<close>

definition destroy_module :: "('iv, 'ptr) Module \<Rightarrow> ('ptr \<Rightarrow> nat) \<Rightarrow> ('ptr \<Rightarrow> nat)" where
  "destroy_module m c = (case mem_to_delete m of None \<Rightarrow> c | Some p \<Rightarrow> sp_release p c)"

section \<open>Loading\<close>

text \<open>
  The collaborators of \<^verbatim>\<open>parse_and_initialize_jit_module\<close>, in the order of their
  calls. \<^verbatim>\<open>ENABLE_UPGRADERS\<close> is the preprocessor switch. \<^verbatim>\<open>parseModule\<close> also
  returns the state of the \<^verbatim>\<open>FlatbufferLoader\<close> object it ran on, which
  \<^verbatim>\<open>extractJitSourceAndConstants\<close> reads afterwards; that function fills the two
  containers it is given pointers to, here the containers before and after. The loader
  and the Format Adapter, which can fail, return a sum, and they may consult the globals.
  \<^verbatim>\<open>mobile_ivalue\<close> is \<^verbatim>\<open>mobilem._ivalue()\<close>, and \<^verbatim>\<open>bytecode_version\<close>
  the accessor of the flatbuffer module.
\<close>

record ('g, 'ptr, 'fb, 'ld, 'mob, 'iv) loader_env =
  ENABLE_UPGRADERS :: bool
  populate_upgraders_graph_map :: "'g \<Rightarrow> 'g"
  GetMutableModule :: "'ptr \<Rightarrow> 'fb"
  parseModule :: "'g \<Rightarrow> 'fb \<Rightarrow> error + ('ld \<times> 'mob)"
  parseExtraFiles :: "'fb \<Rightarrow> ExtraFilesMap \<Rightarrow> ExtraFilesMap"
  extractJitSourceAndConstants ::
    "'ld \<Rightarrow> ExtraFilesMap \<Rightarrow> 'iv list \<Rightarrow> ExtraFilesMap \<times> 'iv list"
  mobile_ivalue :: "'mob \<Rightarrow> 'iv"
  bytecode_version :: "'fb \<Rightarrow> 32 word"
  jitModuleFromSourceAndConstants ::
    "'g \<Rightarrow> 'iv \<Rightarrow> ExtraFilesMap \<Rightarrow> 'iv list \<Rightarrow> 32 word \<Rightarrow> error + ('iv, 'ptr) Module"

text \<open>
  \<^verbatim>\<open>parse_and_initialize_jit_module(data, size, extra_files, device)\<close>. The result
  is the returned module or the exception, the caller's \<^verbatim>\<open>extra_files\<close> (passed by
  reference) as the call leaves it, and the process state. \<open>size'\<close> is the parameter
  \<^verbatim>\<open>size\<close>, which no statement of the function reads. The parameter \<^verbatim>\<open>data\<close>
  is passed by value: it is one owner of the buffer for the time of the call, and it is
  destroyed when the call returns or throws. \<open>populate_upgraders\<close> is the block
  under \<^verbatim>\<open>#if ENABLE_UPGRADERS\<close>.
\<close>

definition populate_upgraders ::
  "('g, 'ptr, 'fb, 'ld, 'mob, 'iv) loader_env \<Rightarrow> ('g, 'ptr) process \<Rightarrow> ('g, 'ptr) process" where
  "populate_upgraders env w =
     (if ENABLE_UPGRADERS env
      then w\<lparr>globals := populate_upgraders_graph_map env (globals w)\<rparr>
      else w)"

definition parse_and_initialize_jit_module ::
  "('g, 'ptr, 'fb, 'ld, 'mob, 'iv) loader_env \<Rightarrow> 'ptr \<Rightarrow> nat \<Rightarrow> ExtraFilesMap \<Rightarrow>
   'dev option \<Rightarrow> ('g, 'ptr) process \<Rightarrow>
   (error + ('iv, 'ptr) Module) \<times> ExtraFilesMap \<times> ('g, 'ptr) process" where
  "parse_and_initialize_jit_module env data size' extra_files device w =
     (let w1 = populate_upgraders env w;
          flatbuffer_module = GetMutableModule env data
      in case parseModule env (globals w1) flatbuffer_module of
           Inl e \<Rightarrow> (Inl e, extra_files, w1\<lparr>use_count := sp_release data (use_count w1)\<rparr>)
         | Inr (loader, mobilem) \<Rightarrow>
             (let extra_files1 = parseExtraFiles env flatbuffer_module extra_files;
                  (files, constants) = extractJitSourceAndConstants env loader Map.empty []
              in case jitModuleFromSourceAndConstants env (globals w1)
                        (mobile_ivalue env mobilem) files constants
                        (bytecode_version env flatbuffer_module) of
                   Inl e \<Rightarrow>
                     (Inl e, extra_files1,
                      w1\<lparr>use_count := sp_release data (use_count w1)\<rparr>)
                 | Inr m0 \<Rightarrow>
                     (let (m, c) = set_delete_memory m0 data (use_count w1)
                      in (Inr m, extra_files1, w1\<lparr>use_count := sp_release data c\<rparr>))))"

section \<open>Saving\<close>

text \<open>
  The collaborators of \<^verbatim>\<open>save_jit_module_to_bytes\<close>, in the order of their calls.
  Each of them is C++ code that can read and write the state of the process, so each takes
  the state and returns the state it leaves. \<^verbatim>\<open>getOptionsFromGlobal()\<close> takes no
  argument: what it returns comes from that state.
\<close>

record ('g, 'm, 'mob, 'iv, 'opts) saver_env =
  jitModuleToPythonCodeAndConstants ::
    "'m \<Rightarrow> ExtraFilesMap \<Rightarrow> 'iv list \<Rightarrow> 'g \<Rightarrow> (ExtraFilesMap \<times> 'iv list) \<times> 'g"
  getOptionsFromGlobal :: "'g \<Rightarrow> 'opts \<times> 'g"
  jitModuleToMobile :: "'m \<Rightarrow> 'opts \<Rightarrow> 'g \<Rightarrow> 'mob \<times> 'g"
  save_mobile_module_to_bytes ::
    "'mob \<Rightarrow> ExtraFilesMap \<Rightarrow> ExtraFilesMap \<Rightarrow> 'iv list \<Rightarrow> 'g \<Rightarrow> byte list \<times> 'g"

text \<open>
  \<^verbatim>\<open>save_jit_module_to_bytes(module, extra_files)\<close>, run in the process state
  \<open>g\<close>: the detached buffer, as its bytes, and the process state after the call. The
  two arguments are references to constants; \<^verbatim>\<open>jitfiles\<close> and \<^verbatim>\<open>constants\<close>
  are locals, empty when their addresses are handed to the first callee.
\<close>

definition save_jit_module_to_bytes ::
  "('g, 'm, 'mob, 'iv, 'opts) saver_env \<Rightarrow> 'g \<Rightarrow> 'm \<Rightarrow> ExtraFilesMap \<Rightarrow> byte list \<times> 'g" where
  "save_jit_module_to_bytes env g module extra_files =
     (let ((jitfiles, constants), g1) =
            jitModuleToPythonCodeAndConstants env module Map.empty [] g;
          (options, g2) = getOptionsFromGlobal env g1;
          (mobilem, g3) = jitModuleToMobile env module options g2
      in save_mobile_module_to_bytes env mobilem extra_files jitfiles constants g3)"

text \<open>
  \<^verbatim>\<open>save_jit_module_to_write_func\<close>. The writer is a \<^verbatim>\<open>std::function\<close> with
  effects of its own: a function from the buffer it is handed (the bytes behind the
  pointer, and the length) and its state to its return value and its new state. The
  C++ function returns nothing and drops the writer's return value; what the call leaves
  is the state of the writer and the state of the process.
\<close>

definition save_jit_module_to_write_func ::
  "('g, 'm, 'mob, 'iv, 'opts) saver_env \<Rightarrow> 'g \<Rightarrow> 'm \<Rightarrow> ExtraFilesMap \<Rightarrow> bool \<Rightarrow>
   (byte list \<Rightarrow> nat \<Rightarrow> 's \<Rightarrow> nat \<times> 's) \<Rightarrow> 's \<Rightarrow> 's \<times> 'g" where
  "save_jit_module_to_write_func env g module extra_files save_mobile_debug_info writer_func s =
     (let (buffer, g1) = save_jit_module_to_bytes env g module extra_files
      in (snd (writer_func buffer (length buffer) s), g1))"

text \<open>
  What it means for a callee to be a pure transform: its result is the same in every
  process state, and it leaves the state as it found it.
\<close>

definition ignores_state :: "('g \<Rightarrow> 'a \<times> 'g) \<Rightarrow> bool" where
  "ignores_state f = (\<forall>g g'. fst (f g) = fst (f g') \<and> snd (f g) = g)"

text \<open>A callee that may read the process state and leaves it as it found it.\<close>

definition writes_no_state :: "('g \<Rightarrow> 'a \<times> 'g) \<Rightarrow> bool" where
  "writes_no_state f = (\<forall>g. snd (f g) = g)"

text \<open>
  A writer that only records what it is called with and returns the length, as a writer
  that wrote everything does.
\<close>

definition recording_writer ::
  "byte list \<Rightarrow> nat \<Rightarrow> (byte list \<times> nat) list \<Rightarrow> nat \<times> (byte list \<times> nat) list" where
  "recording_writer buf len calls = (len, calls @ [(buf, len)])"

section \<open>Registration\<close>

text \<open>
  The two hooks \<^verbatim>\<open>_save_jit_module_to\<close> and
  \<^verbatim>\<open>_load_jit_module_from_flatbuffer_bytes\<close> are global function pointers, null
  until something is stored in them. A function pointer is the name of its target.
\<close>

datatype hook_fn = Fn_save_jit_module_to_write_func | Fn_parse_and_initialize_jit_module

text \<open>
  What a call of \<^verbatim>\<open>register_flatbuffer_all\<close> does to the world outside it, in the
  order it does it: two calls to the registration functions of other translation units
  and two stores.
\<close>

datatype effect =
    Call_register_flatbuffer_loader
  | Call_register_flatbuffer_serializer
  | Store_save_jit_module_to hook_fn
  | Store_load_jit_module_from_flatbuffer_bytes hook_fn

text \<open>
  The state a registration touches: the two hooks, the state behind the two registration
  functions of the loader and the serializer, and the record of what has been done.
\<close>

record 'r registration_state =
  save_jit_module_to :: "hook_fn option"
  load_jit_module_from_flatbuffer_bytes :: "hook_fn option"
  registries :: 'r
  effects :: "effect list"

text \<open>The two registration functions this file calls; their results are discarded.\<close>

record 'r registration_env =
  register_flatbuffer_loader :: "'r \<Rightarrow> bool \<times> 'r"
  register_flatbuffer_serializer :: "'r \<Rightarrow> bool \<times> 'r"

text \<open>\<^verbatim>\<open>register_flatbuffer_all()\<close>: four statements in sequence and \<^verbatim>\<open>return true\<close>.\<close>

definition register_flatbuffer_all ::
  "'r registration_env \<Rightarrow> 'r registration_state \<Rightarrow> bool \<times> 'r registration_state" where
  "register_flatbuffer_all env s =
     (let s1 = s\<lparr>registries := snd (register_flatbuffer_loader env (registries s)),
                 effects := effects s @ [Call_register_flatbuffer_loader]\<rparr>;
          s2 = s1\<lparr>registries := snd (register_flatbuffer_serializer env (registries s1)),
                  effects := effects s1 @ [Call_register_flatbuffer_serializer]\<rparr>;
          s3 = s2\<lparr>save_jit_module_to := Some Fn_save_jit_module_to_write_func,
                  effects := effects s2 @
                    [Store_save_jit_module_to Fn_save_jit_module_to_write_func]\<rparr>;
          s4 = s3\<lparr>load_jit_module_from_flatbuffer_bytes :=
                    Some Fn_parse_and_initialize_jit_module,
                  effects := effects s3 @
                    [Store_load_jit_module_from_flatbuffer_bytes
                       Fn_parse_and_initialize_jit_module]\<rparr>
      in (True, s4))"

text \<open>
  The initialiser of the constant \<^verbatim>\<open>kFlatbufferSerializerJitInitialized\<close>, which runs
  once when the library is loaded, unless \<^verbatim>\<open>__APPLE__\<close> is defined: then there is no
  such constant.
\<close>

definition kFlatbufferSerializerJitInitialized ::
  "bool \<Rightarrow> 'r registration_env \<Rightarrow> 'r registration_state \<Rightarrow>
   bool option \<times> 'r registration_state" where
  "kFlatbufferSerializerJitInitialized APPLE env s =
     (if APPLE then (None, s)
      else (Some (fst (register_flatbuffer_all env s)), snd (register_flatbuffer_all env s)))"

text \<open>\<open>n\<close> calls of \<^verbatim>\<open>register_flatbuffer_all\<close>, one after the other.\<close>

fun register_flatbuffer_all_times ::
  "'r registration_env \<Rightarrow> nat \<Rightarrow> 'r registration_state \<Rightarrow> 'r registration_state" where
  "register_flatbuffer_all_times env 0 s = s"
| "register_flatbuffer_all_times env (Suc n) s =
     snd (register_flatbuffer_all env (register_flatbuffer_all_times env n s))"

text \<open>The effects of one call.\<close>

definition effects_of_one_call :: "effect list" where
  "effects_of_one_call =
     [Call_register_flatbuffer_loader, Call_register_flatbuffer_serializer,
      Store_save_jit_module_to Fn_save_jit_module_to_write_func,
      Store_load_jit_module_from_flatbuffer_bytes Fn_parse_and_initialize_jit_module]"

section \<open>Collaborators described by the specification\<close>

subsection \<open>Extraction of the extra files\<close>

text \<open>
  Modelled from the spec: \<^verbatim>\<open>parseExtraFiles\<close> is not in the source file. It walks
  the extra-files table of the artifact and merges it into the caller's map: a name
  that is already a key is left untouched, a new name is added with its content
  (insert if absent).
\<close>

fun insert_extra_files :: "(string \<times> string) list \<Rightarrow> ExtraFilesMap \<Rightarrow> ExtraFilesMap" where
  "insert_extra_files [] m = m"
| "insert_extra_files ((name, content) # rest) m =
     insert_extra_files rest (if m name = None then m(name \<mapsto> content) else m)"

subsection \<open>The upgrader stage\<close>

text \<open>
  Modelled from the spec: the Upgrader Applier is not in the source file, which only
  populates the registry (\<^verbatim>\<open>populate_upgraders_graph_map\<close>) and hands the declared
  version on. An instruction of the stream calls an operator by name.
\<close>

record instruction =
  op_name :: string
  operands :: "nat list"

text \<open>
  Modelled from the spec: an entry of the registry, keyed by operator name and version
  range, with the operator that takes the place of the outdated one.
\<close>

record upgrader =
  upgrader_op :: string
  min_version :: nat
  max_version :: nat
  upgraded_op :: string

text \<open>
  Modelled from the spec: the Portable Module, with its instruction stream and its
  constant pool.
\<close>

record 'iv portable_module =
  pm_instructions :: "instruction list"
  pm_constants :: "'iv list"

text \<open>
  Modelled from the spec: an upgrader covers an instruction when the operator is its
  operator and the declared version lies in its range.
\<close>

definition upgrader_applies :: "upgrader \<Rightarrow> nat \<Rightarrow> instruction \<Rightarrow> bool" where
  "upgrader_applies u declared i =
     (op_name i = upgrader_op u \<and> min_version u \<le> declared \<and> declared \<le> max_version u)"

text \<open>
  Modelled from the spec: an instruction is rewritten by the first upgrader, in
  declaration order, that covers it.
\<close>

fun upgrade_instruction :: "upgrader list \<Rightarrow> nat \<Rightarrow> instruction \<Rightarrow> instruction" where
  "upgrade_instruction [] declared i = i"
| "upgrade_instruction (u # us) declared i =
     (if upgrader_applies u declared i then i\<lparr>op_name := upgraded_op u\<rparr>
      else upgrade_instruction us declared i)"

text \<open>
  Modelled from the spec: the stage is one pass over the instruction stream, and a no-op
  when the declared version equals the current version.
\<close>

definition apply_upgraders ::
  "upgrader list \<Rightarrow> nat \<Rightarrow> nat \<Rightarrow> 'iv portable_module \<Rightarrow> 'iv portable_module" where
  "apply_upgraders registry declared current pm =
     (if declared = current then pm
      else pm\<lparr>pm_instructions := map (upgrade_instruction registry declared) (pm_instructions pm)\<rparr>)"

subsection \<open>Reading a buffer through a pointer\<close>









subsection \<open>A reference instance of the collaborators\<close>

text \<open>
  Modelled from the spec: the artifact as the Deserializer reads it, with the header
  identifier, the schema version, the extra-files table, the source text bundle, the
  constant pool and the module object. The glue is evaluated on this instance at
  concrete inputs.
\<close>

record flat_module =
  fm_identifier :: string
  fm_bytecode_version :: "32 word"
  fm_extra_files :: "(string \<times> string) list"
  fm_jit_sources :: "(string \<times> string) list"
  fm_jit_constants :: "nat list"
  fm_object :: nat

text \<open>
  Modelled from the spec: a loader that validates the header identifier and fails with
  \<open>FormatError\<close> when it is absent, merges the extra files insert-if-absent, and
  hands source bundle and constant pool to the Format Adapter. It reaches the artifact
  through the data pointer, an address of \<open>memory\<close>, as the C++ signatures have it.
\<close>

definition reference_loader ::
  "(nat \<Rightarrow> flat_module) \<Rightarrow> (unit, nat, flat_module, flat_module, nat, nat) loader_env" where
  "reference_loader memory =
     \<lparr>ENABLE_UPGRADERS = True,
      populate_upgraders_graph_map = (\<lambda>g. g),
      GetMutableModule = memory,
      parseModule = (\<lambda>g fb. if fm_identifier fb = ''PTMF'' then Inr (fb, fm_object fb)
                             else Inl FormatError),
      parseExtraFiles = (\<lambda>fb m. insert_extra_files (fm_extra_files fb) m),
      extractJitSourceAndConstants =
        (\<lambda>ld files constants.
           (insert_extra_files (fm_jit_sources ld) files, constants @ fm_jit_constants ld)),
      mobile_ivalue = (\<lambda>mobilem. mobilem),
      bytecode_version = fm_bytecode_version,
      jitModuleFromSourceAndConstants =
        (\<lambda>g iv files constants version. Inr \<lparr>module_ivalue = iv, mem_to_delete = None\<rparr>)\<rparr>"

text \<open>
  Modelled from the spec: an artifact with one method source, constant pool \<open>[1, 2]\<close>
  and the extra file \<open>meta.txt\<close> of the merge scenario.
\<close>

definition example_artifact :: flat_module where
  "example_artifact =
     \<lparr>fm_identifier = ''PTMF'', fm_bytecode_version = 9,
      fm_extra_files = [(''meta.txt'', ''v1'')],
      fm_jit_sources = [(''code/__torch__.py'', ''def forward(self): return 1'')],
      fm_jit_constants = [1, 2], fm_object = 7\<rparr>"

text \<open>Modelled from the spec: memory without the header identifier.\<close>

definition no_artifact :: flat_module where
  "no_artifact =
     \<lparr>fm_identifier = [], fm_bytecode_version = 0, fm_extra_files = [],
      fm_jit_sources = [], fm_jit_constants = [], fm_object = 0\<rparr>"

text \<open>
  Modelled from the spec: a memory that holds the example artifact at address 4096 and
  no artifact anywhere else.
\<close>

definition example_memory :: "nat \<Rightarrow> flat_module" where
  "example_memory p = (if p = 4096 then example_artifact else no_artifact)"

text \<open>
  Modelled from the spec: the process before the load, where the argument \<open>data\<close> is
  the only owner of the buffer at address 4096.
\<close>

definition example_process :: "(unit, nat) process" where
  "example_process = \<lparr>globals = (), use_count = (\<lambda>p. if p = 4096 then 1 else 0)\<rparr>"

text \<open>
  Modelled from the spec: the caller's map of the merge scenario, which already holds
  \<open>other.txt\<close>.
\<close>

definition example_extra_files :: ExtraFilesMap where
  "example_extra_files = [''other.txt'' \<mapsto> ''x'']"

text \<open>
  Modelled from the spec: the global state of a saving process, with the compilation
  option (whether to include debug information) and the rest.
\<close>

record save_globals =
  emit_debug_info :: bool
  other_state :: nat

text \<open>
  Modelled from the spec: a saver made of pure transforms. Its only look at the process
  is the read of the compilation options; its lowering step takes the options, and its
  encoder writes the module, the option and the size of the constant pool.
\<close>

definition reference_saver :: "(save_globals, nat, nat \<times> bool, nat, bool) saver_env" where
  "reference_saver =
     \<lparr>jitModuleToPythonCodeAndConstants =
        (\<lambda>module files constants g.
           ((files(''code/__torch__.py'' \<mapsto> ''def forward(self): return 1''),
             constants @ [module]), g)),
      getOptionsFromGlobal = (\<lambda>g. (emit_debug_info g, g)),
      jitModuleToMobile = (\<lambda>module options g. ((module, options), g)),
      save_mobile_module_to_bytes =
        (\<lambda>mobilem extra_files jitfiles constants g.
           ([of_nat (fst mobilem), (if snd mobilem then 1 else 0),
             of_nat (length constants)], g))\<rparr>"

text \<open>The process before any registration: both hooks are null.\<close>

definition registration_start :: "unit registration_state" where
  "registration_start =
     \<lparr>save_jit_module_to = None, load_jit_module_from_flatbuffer_bytes = None,
      registries = (), effects = []\<rparr>"

text \<open>
  Modelled from the spec: registration functions of the loader and the serializer that
  report success.
\<close>

definition reference_registration :: "unit registration_env" where
  "reference_registration =
     \<lparr>register_flatbuffer_loader = (\<lambda>r. (True, r)),
      register_flatbuffer_serializer = (\<lambda>r. (True, r))\<rparr>"

section \<open>Facts about the load shared by the theorems below\<close>

lemma use_count_populate_upgraders:
  "use_count (populate_upgraders env w) = use_count w"
  by (simp add: populate_upgraders_def)

lemma populate_upgraders_update [simp]:
  "populate_upgraders (env\<lparr>extractJitSourceAndConstants := x\<rparr>) w = populate_upgraders env w"
  "populate_upgraders (env\<lparr>jitModuleFromSourceAndConstants := j\<rparr>) w = populate_upgraders env w"
  by (simp_all add: populate_upgraders_def)

text \<open>
  The outcome of a load: the exception of the loader or of the Format Adapter, whichever
  throws first, or else the module the Format Adapter built, with the buffer attached.
  The Format Adapter is handed what the extraction put into two empty containers.
\<close>

lemma load_outcome:
  "fst (parse_and_initialize_jit_module env data sz extra_files device w) =
     (case parseModule env (globals (populate_upgraders env w)) (GetMutableModule env data) of
        Inl e \<Rightarrow> Inl e
      | Inr parsed \<Rightarrow>
          (case jitModuleFromSourceAndConstants env (globals (populate_upgraders env w))
                  (mobile_ivalue env (snd parsed))
                  (fst (extractJitSourceAndConstants env (fst parsed) Map.empty []))
                  (snd (extractJitSourceAndConstants env (fst parsed) Map.empty []))
                  (bytecode_version env (GetMutableModule env data)) of
             Inl e \<Rightarrow> Inl e
           | Inr m0 \<Rightarrow> Inr (m0\<lparr>mem_to_delete := Some data\<rparr>)))"
  by (simp add: parse_and_initialize_jit_module_def Let_def set_delete_memory_def
           split: sum.splits prod.splits)

text \<open>
  The caller's map after the call: untouched when \<^verbatim>\<open>parseModule\<close> throws, and what
  \<^verbatim>\<open>parseExtraFiles\<close> made of it otherwise, also when the Format Adapter throws later.
\<close>

lemma extra_files_after_load:
  "fst (snd (parse_and_initialize_jit_module env data sz extra_files device w)) =
     (case parseModule env (globals (populate_upgraders env w)) (GetMutableModule env data) of
        Inl e \<Rightarrow> extra_files
      | Inr r \<Rightarrow> parseExtraFiles env (GetMutableModule env data) extra_files)"
  by (simp add: parse_and_initialize_jit_module_def Let_def
           split: sum.splits prod.splits)

text \<open>A load that returns a module went through every stage.\<close>

lemma load_success:
  assumes loaded: "parse_and_initialize_jit_module env data sz extra_files device w =
                     (Inr m, ef', w')"
  shows "\<exists>m0 g iv files constants version.
           jitModuleFromSourceAndConstants env g iv files constants version = Inr m0
           \<and> m = fst (set_delete_memory m0 data (use_count w))
           \<and> use_count w' = sp_release data (snd (set_delete_memory m0 data (use_count w)))"
proof -
  let ?w1 = "populate_upgraders env w"
  let ?fb = "GetMutableModule env data"
  obtain loader mobilem where
    parsed: "parseModule env (globals ?w1) ?fb = Inr (loader, mobilem)"
    using loaded
    by (auto simp: parse_and_initialize_jit_module_def Let_def split: sum.splits)
  obtain files constants where
    extracted: "extractJitSourceAndConstants env loader Map.empty [] = (files, constants)"
    by (cases "extractJitSourceAndConstants env loader Map.empty []")
  obtain m0 where
    compiled: "jitModuleFromSourceAndConstants env (globals ?w1) (mobile_ivalue env mobilem)
                 files constants (bytecode_version env ?fb) = Inr m0"
    using loaded parsed extracted
    by (auto simp: parse_and_initialize_jit_module_def Let_def split: sum.splits)
  have "m = fst (set_delete_memory m0 data (use_count w))
      \<and> use_count w' = sp_release data (snd (set_delete_memory m0 data (use_count w)))"
    using loaded parsed extracted compiled
    by (auto simp: parse_and_initialize_jit_module_def Let_def use_count_populate_upgraders
          split: prod.splits)
  then show ?thesis using compiled by blast
qed

text \<open>The load of the example artifact returns a module that holds the buffer.\<close>

lemma example_load:
  "fst (parse_and_initialize_jit_module (reference_loader example_memory) 4096 sz
          example_extra_files (None :: unit option) example_process) =
     Inr \<lparr>module_ivalue = 7, mem_to_delete = Some 4096\<rparr>"
  by (simp add: parse_and_initialize_jit_module_def populate_upgraders_def
        reference_loader_def example_memory_def example_artifact_def example_process_def
        set_delete_memory_def)

section \<open>Truncation\<close>









section \<open>Extra files\<close>

lemma insert_extra_files_eq: "insert_extra_files table m = map_of table ++ m"
proof (induction table arbitrary: m)
  case Nil
  show ?case by simp
next
  case (Cons entry rest)
  obtain name content where entry: "entry = (name, content)" by (cases entry)
  let ?m' = "if m name = None then m(name \<mapsto> content) else m"
  have "insert_extra_files (entry # rest) m = map_of rest ++ ?m'"
    unfolding entry insert_extra_files.simps by (rule Cons.IH)
  also have "\<dots> = map_of (entry # rest) ++ m"
    by (auto simp: entry map_add_def fun_eq_iff split: option.splits)
  finally show ?case .
qed

text \<open>An entry of the merged map comes from the map or from the table.\<close>

lemma insert_extra_files_origin:
  "insert_extra_files table m name = Some content \<Longrightarrow>
   m name = Some content \<or> (name, content) \<in> set table"
  by (auto simp: insert_extra_files_eq map_add_def split: option.splits dest: map_of_SomeD)

text \<open>
  C3. With \<^verbatim>\<open>parseExtraFiles\<close> merging insert-if-absent, as the specification
  describes it, a load changes the caller's map in place so that every entry it held
  before the call is still there with the same content, whatever the outcome of the
  load; and after a load that returns a module, a name that was not a key maps to the
  content the artifact stores under it, or to nothing if the artifact stores no such
  file. No other key changes.
\<close>

theorem extra_files_merge:
  assumes spec: "\<And>fb m. parseExtraFiles env fb m = insert_extra_files (stored fb) m"
  shows "(\<forall>name content. extra_files name = Some content \<longrightarrow>
            fst (snd (parse_and_initialize_jit_module env data sz extra_files device w)) name =
              Some content)
       \<and> (\<forall>m. fst (parse_and_initialize_jit_module env data sz extra_files device w) = Inr m \<longrightarrow>
            (\<forall>name. extra_files name = None \<longrightarrow>
               fst (snd (parse_and_initialize_jit_module env data sz extra_files device w)) name =
                 map_of (stored (GetMutableModule env data)) name))"
proof (cases "parseModule env (globals (populate_upgraders env w)) (GetMutableModule env data)")
  case (Inl e)
  then have out: "fst (snd (parse_and_initialize_jit_module env data sz extra_files device w)) =
      extra_files"
    by (simp add: extra_files_after_load)
  have "fst (parse_and_initialize_jit_module env data sz extra_files device w) = Inl e"
    using Inl by (simp add: parse_and_initialize_jit_module_def Let_def)
  then show ?thesis using out by simp
next
  case (Inr r)
  then have "fst (snd (parse_and_initialize_jit_module env data sz extra_files device w)) =
      map_of (stored (GetMutableModule env data)) ++ extra_files"
    by (simp add: extra_files_after_load spec insert_extra_files_eq)
  then show ?thesis by (simp add: map_add_def)
qed

text \<open>
  C3 at the scenario of the specification: the artifact stores \<open>meta.txt\<close> with
  content \<open>v1\<close>, the caller's map holds \<open>other.txt\<close> with content \<open>x\<close>; after the
  load the map holds both.
\<close>

theorem extra_files_merge_scenario:
  "fst (snd (parse_and_initialize_jit_module (reference_loader example_memory) 4096 64
               example_extra_files (None :: unit option) example_process)) ''other.txt'' = Some ''x''
   \<and> fst (snd (parse_and_initialize_jit_module (reference_loader example_memory) 4096 64
               example_extra_files (None :: unit option) example_process)) ''meta.txt'' = Some ''v1''"
proof -
  let ?env = "reference_loader example_memory"
  have spec: "\<And>fb m. parseExtraFiles ?env fb m = insert_extra_files (fm_extra_files fb) m"
    by (simp add: reference_loader_def)
  have before: "example_extra_files ''other.txt'' = Some ''x''"
    "example_extra_files ''meta.txt'' = None"
    by (simp_all add: example_extra_files_def)
  have loaded: "fst (parse_and_initialize_jit_module ?env 4096 64 example_extra_files
                       (None :: unit option) example_process) =
                Inr \<lparr>module_ivalue = 7, mem_to_delete = Some 4096\<rparr>"
    by (rule example_load)
  have table: "map_of (fm_extra_files (GetMutableModule ?env 4096)) ''meta.txt'' = Some ''v1''"
    by (simp add: reference_loader_def example_memory_def example_artifact_def)
  from extra_files_merge [of ?env fm_extra_files example_extra_files 4096 64
        "None :: unit option" example_process, OF spec]
  show ?thesis using before loaded table by simp
qed

text \<open>
  C10. During every load the source text bundle and the constant pool are extracted into
  two containers of the call's own, empty before the extraction, and go from there to
  the Format Adapter: the outcome of the load is the outcome of the loader followed by
  the Format Adapter on what the extraction put into the empty containers. They go
  nowhere else: with any other extraction and any other Format Adapter in their place
  the caller's map after the call is the same. And when \<^verbatim>\<open>parseExtraFiles\<close> stores
  nothing but entries of the extra-files table of the artifact, every entry of the
  caller's map after the call was in the map before the call or is an entry of that
  table.
\<close>

theorem source_bundle_kept_out_of_extra_files:
  assumes table_only: "\<forall>fb m name content.
        parseExtraFiles env fb m name = Some content \<longrightarrow>
        m name = Some content \<or> (name, content) \<in> set (stored fb)"
  shows "fst (parse_and_initialize_jit_module env data sz extra_files device w) =
           (case parseModule env (globals (populate_upgraders env w))
                   (GetMutableModule env data) of
              Inl e \<Rightarrow> Inl e
            | Inr parsed \<Rightarrow>
                (case jitModuleFromSourceAndConstants env (globals (populate_upgraders env w))
                        (mobile_ivalue env (snd parsed))
                        (fst (extractJitSourceAndConstants env (fst parsed) Map.empty []))
                        (snd (extractJitSourceAndConstants env (fst parsed) Map.empty []))
                        (bytecode_version env (GetMutableModule env data)) of
                   Inl e \<Rightarrow> Inl e
                 | Inr m0 \<Rightarrow> Inr (m0\<lparr>mem_to_delete := Some data\<rparr>)))
       \<and> fst (snd (parse_and_initialize_jit_module
               (env\<lparr>extractJitSourceAndConstants := x, jitModuleFromSourceAndConstants := j\<rparr>)
               data sz extra_files device w)) =
           fst (snd (parse_and_initialize_jit_module env data sz extra_files device w))
       \<and> (\<forall>name content.
            fst (snd (parse_and_initialize_jit_module env data sz extra_files device w)) name =
              Some content \<longrightarrow>
            extra_files name = Some content
            \<or> (name, content) \<in> set (stored (GetMutableModule env data)))"
proof -
  have frame: "fst (snd (parse_and_initialize_jit_module
               (env\<lparr>extractJitSourceAndConstants := x, jitModuleFromSourceAndConstants := j\<rparr>)
               data sz extra_files device w)) =
           fst (snd (parse_and_initialize_jit_module env data sz extra_files device w))"
    by (simp add: extra_files_after_load split: sum.splits)
  have origin: "extra_files name = Some content
        \<or> (name, content) \<in> set (stored (GetMutableModule env data))"
    if "fst (snd (parse_and_initialize_jit_module env data sz extra_files device w)) name =
          Some content" for name content
    using that table_only
    by (auto simp: extra_files_after_load split: sum.splits)
  show ?thesis
    using frame origin load_outcome [of env data sz extra_files device w] by blast
qed

text \<open>
  C10 at the example load: the source bundle of the artifact holds
  \<open>code/__torch__.py\<close>, which is neither in the caller's map nor in the extra-files
  table; after the load the caller's map has no such key.
\<close>

theorem source_bundle_kept_out_of_extra_files_witness:
  "fst (snd (parse_and_initialize_jit_module (reference_loader example_memory) 4096 64
               example_extra_files (None :: unit option) example_process))
     ''code/__torch__.py'' = None"
proof -
  let ?env = "reference_loader example_memory"
  let ?out = "fst (snd (parse_and_initialize_jit_module ?env 4096 64 example_extra_files
                (None :: unit option) example_process))"
  have table_only: "\<forall>fb m name content.
        parseExtraFiles ?env fb m name = Some content \<longrightarrow>
        m name = Some content \<or> (name, content) \<in> set (fm_extra_files fb)"
    by (auto simp: reference_loader_def dest: insert_extra_files_origin)
  note at_input = source_bundle_kept_out_of_extra_files [of ?env fm_extra_files 4096 64
      example_extra_files "None :: unit option" example_process, OF table_only]
  note origin = at_input [THEN conjunct2, THEN conjunct2, rule_format]
  have not_before: "example_extra_files ''code/__torch__.py'' \<noteq> Some content" for content
    by (simp add: example_extra_files_def)
  have not_stored: "(''code/__torch__.py'', content) \<notin>
      set (fm_extra_files (GetMutableModule ?env 4096))" for content
    by (simp add: reference_loader_def example_memory_def example_artifact_def)
  show ?thesis
  proof (cases "?out ''code/__torch__.py''")
    case None
    then show ?thesis .
  next
    case (Some content)
    from origin [OF Some] not_before [of content] not_stored [of content]
    show ?thesis by simp
  qed
qed

section \<open>Lifetime of the backing buffer\<close>

lemma sp_release_funpow: "(sp_release p ^^ k) c p = c p - k"
  by (induction k) (simp_all add: sp_release_def)

text \<open>
  C4. After a load that returns a module, the module holds the data buffer
  (\<^verbatim>\<open>set_delete_memory\<close>), and its share has taken the place of the share of the
  argument \<open>data\<close>: the buffer has as many owners as at the start of the call. So the
  buffer stays valid while fewer owners than that have released it, in particular when
  every owner but the module has; and it is released when the module is destroyed after
  them. The load is one whose argument owns the buffer and whose Format Adapter builds
  modules that hold no buffer yet.
\<close>

theorem module_shares_backing_buffer:
  assumes fresh: "\<forall>g iv files constants version m0.
        jitModuleFromSourceAndConstants env g iv files constants version = Inr m0 \<longrightarrow>
        mem_to_delete m0 = None"
    and owner: "0 < use_count w data"
    and loaded: "parse_and_initialize_jit_module env data sz extra_files device w =
                   (Inr m, extra_files', w')"
  shows "mem_to_delete m = Some data
       \<and> use_count w' data = use_count w data
       \<and> (\<forall>k. k < use_count w' data \<longrightarrow>
             buffer_valid data ((sp_release data ^^ k) (use_count w')))
       \<and> \<not> buffer_valid data
             (destroy_module m ((sp_release data ^^ (use_count w' data - 1)) (use_count w')))"
proof -
  obtain m0 where m: "m = fst (set_delete_memory m0 data (use_count w))"
    and c: "use_count w' = sp_release data (snd (set_delete_memory m0 data (use_count w)))"
    and m0: "mem_to_delete m0 = None"
    using load_success [OF loaded] fresh by blast
  have held: "mem_to_delete m = Some data"
    by (simp add: m set_delete_memory_def)
  have count: "use_count w' data = use_count w data"
    by (simp add: c m0 set_delete_memory_def sp_release_def sp_acquire_def)
  have others: "\<forall>k. k < use_count w' data \<longrightarrow>
      buffer_valid data ((sp_release data ^^ k) (use_count w'))"
    by (simp add: buffer_valid_def sp_release_funpow)
  have last: "\<not> buffer_valid data
      (destroy_module m ((sp_release data ^^ (use_count w' data - 1)) (use_count w')))"
    using owner count
    by (simp add: destroy_module_def held buffer_valid_def sp_release_def sp_release_funpow)
  show ?thesis using held count others last by blast
qed

text \<open>
  C4 at the example load, where the argument is the only owner of the buffer at address
  4096: after the load the module is the one owner, the buffer is valid, and destroying
  the module releases it.
\<close>

theorem module_shares_backing_buffer_witness:
  "mem_to_delete \<lparr>module_ivalue = 7 :: nat, mem_to_delete = Some (4096 :: nat)\<rparr> = Some 4096
   \<and> use_count (snd (snd (parse_and_initialize_jit_module (reference_loader example_memory)
          4096 64 example_extra_files (None :: unit option) example_process))) 4096 = 1
   \<and> buffer_valid 4096 (use_count (snd (snd (parse_and_initialize_jit_module
          (reference_loader example_memory) 4096 64 example_extra_files (None :: unit option)
          example_process))))
   \<and> \<not> buffer_valid 4096 (destroy_module \<lparr>module_ivalue = 7 :: nat, mem_to_delete = Some 4096\<rparr>
          (use_count (snd (snd (parse_and_initialize_jit_module
             (reference_loader example_memory) 4096 64 example_extra_files
             (None :: unit option) example_process)))))"
proof -
  let ?env = "reference_loader example_memory"
  let ?m = "\<lparr>module_ivalue = 7 :: nat, mem_to_delete = Some (4096 :: nat)\<rparr>"
  let ?out = "parse_and_initialize_jit_module ?env 4096 64 example_extra_files
                (None :: unit option) example_process"
  have fresh: "\<forall>g iv files constants version m0.
      jitModuleFromSourceAndConstants ?env g iv files constants version = Inr m0 \<longrightarrow>
      mem_to_delete m0 = None"
    by (auto simp: reference_loader_def)
  have owner: "0 < use_count example_process 4096"
    by (simp add: example_process_def)
  have "fst ?out = Inr ?m"
    by (rule example_load)
  then have loaded: "?out = (Inr ?m, fst (snd ?out), snd (snd ?out))"
    by (metis prod.collapse)
  note at_input = module_shares_backing_buffer [of ?env example_process 4096 64
      example_extra_files "None :: unit option" ?m "fst (snd ?out)" "snd (snd ?out)",
      OF fresh owner loaded]
  note same_count = at_input [THEN conjunct2, THEN conjunct1]
  note others = at_input [THEN conjunct2, THEN conjunct2, THEN conjunct1, rule_format]
  note last = at_input [THEN conjunct2, THEN conjunct2, THEN conjunct2]
  have start: "use_count example_process 4096 = 1"
    by (simp add: example_process_def)
  have one: "use_count (snd (snd ?out)) 4096 = 1"
    using same_count start by simp
  have "buffer_valid 4096 ((sp_release 4096 ^^ 0) (use_count (snd (snd ?out))))"
    by (rule others) (simp add: one)
  then have valid: "buffer_valid 4096 (use_count (snd (snd ?out)))" by simp
  have gone: "\<not> buffer_valid 4096 (destroy_module ?m (use_count (snd (snd ?out))))"
    using last by (simp add: one)
  show ?thesis using one valid gone by simp
qed

section \<open>Saving\<close>

text \<open>
  C5, as amended. The function is not independent of all state but its two arguments:
  it reads the compilation options of the process and hands them to the lowering. That
  read is the only access to the state of the process that its own statements make.
  When its callees are pure transforms, that is, when
  \<^verbatim>\<open>jitModuleToPythonCodeAndConstants\<close>, \<^verbatim>\<open>jitModuleToMobile\<close> and
  \<^verbatim>\<open>save_mobile_module_to_bytes\<close> return the same in every process state and leave
  the state as they found it, and \<^verbatim>\<open>getOptionsFromGlobal\<close> leaves the state as it
  found it, two calls with the same module and the same extra files, in two process
  states that give the same compilation options, return the same bytes, and the call
  has no side effect: it leaves the process state as it found it.
\<close>

theorem save_reads_only_the_global_options:
  assumes source: "\<forall>module files constants.
        ignores_state (jitModuleToPythonCodeAndConstants env module files constants)"
    and getter: "writes_no_state (getOptionsFromGlobal env)"
    and lowering: "\<forall>module options. ignores_state (jitModuleToMobile env module options)"
    and encoder: "\<forall>mobilem extra_files jitfiles constants.
        ignores_state (save_mobile_module_to_bytes env mobilem extra_files jitfiles constants)"
    and options: "fst (getOptionsFromGlobal env g1) = fst (getOptionsFromGlobal env g2)"
  shows "fst (save_jit_module_to_bytes env g1 module extra_files) =
           fst (save_jit_module_to_bytes env g2 module extra_files)
       \<and> snd (save_jit_module_to_bytes env g1 module extra_files) = g1"
proof -
  define extracted where "extracted = fst (jitModuleToPythonCodeAndConstants env module Map.empty [] g1)"
  define lower where "lower = (\<lambda>opts. fst (jitModuleToMobile env module opts g1))"
  define encode where "encode = (\<lambda>mobilem jitfiles constants.
      fst (save_mobile_module_to_bytes env mobilem extra_files jitfiles constants g1))"
  have j: "jitModuleToPythonCodeAndConstants env module Map.empty [] g = (extracted, g)" for g
    unfolding extracted_def using source by (metis ignores_state_def prod.collapse)
  define opts where "opts = (\<lambda>g. fst (getOptionsFromGlobal env g))"
  have o: "getOptionsFromGlobal env g = (opts g, g)" for g
    unfolding opts_def using getter by (metis writes_no_state_def prod.collapse)
  have l: "jitModuleToMobile env module opts g = (lower opts, g)" for opts g
    unfolding lower_def using lowering by (metis ignores_state_def prod.collapse)
  have e: "save_mobile_module_to_bytes env mobilem extra_files jitfiles constants g =
      (encode mobilem jitfiles constants, g)" for mobilem jitfiles constants g
    unfolding encode_def using encoder by (metis ignores_state_def prod.collapse)
  have at: "save_jit_module_to_bytes env g module extra_files =
      (encode (lower (opts g)) (fst extracted) (snd extracted), g)" for g
    by (simp add: save_jit_module_to_bytes_def j o l e Let_def split: prod.splits)
  have "opts g1 = opts g2"
    using options by (simp add: opts_def)
  then show ?thesis
    using at [of g1] at [of g2] by simp
qed

text \<open>
  The amended C5 at an input: the reference saver, in two process states that differ
  outside the compilation options.
\<close>

theorem save_reads_only_the_global_options_witness:
  "fst (save_jit_module_to_bytes reference_saver \<lparr>emit_debug_info = True, other_state = 0\<rparr> 3
          [''README'' \<mapsto> ''hi'']) =
   fst (save_jit_module_to_bytes reference_saver \<lparr>emit_debug_info = True, other_state = 5\<rparr> 3
          [''README'' \<mapsto> ''hi''])
   \<and> snd (save_jit_module_to_bytes reference_saver \<lparr>emit_debug_info = True, other_state = 0\<rparr> 3
          [''README'' \<mapsto> ''hi'']) = \<lparr>emit_debug_info = True, other_state = 0\<rparr>"
proof -
  have source: "\<forall>module files constants.
      ignores_state (jitModuleToPythonCodeAndConstants reference_saver module files constants)"
    by (simp add: reference_saver_def ignores_state_def)
  have getter: "writes_no_state (getOptionsFromGlobal reference_saver)"
    by (simp add: reference_saver_def writes_no_state_def)
  have lowering: "\<forall>module options.
      ignores_state (jitModuleToMobile reference_saver module options)"
    by (simp add: reference_saver_def ignores_state_def)
  have encoder: "\<forall>mobilem extra_files jitfiles constants.
      ignores_state
        (save_mobile_module_to_bytes reference_saver mobilem extra_files jitfiles constants)"
    by (simp add: reference_saver_def ignores_state_def)
  have options:
    "fst (getOptionsFromGlobal reference_saver \<lparr>emit_debug_info = True, other_state = 0\<rparr>) =
     fst (getOptionsFromGlobal reference_saver \<lparr>emit_debug_info = True, other_state = 5\<rparr>)"
    by (simp add: reference_saver_def)
  from save_reads_only_the_global_options [OF source getter lowering encoder options]
  show ?thesis .
qed

text \<open>
  C5 as stated fails: the same module and the same extra files, saved by the reference
  saver in two process states whose compilation options differ, give different bytes.
\<close>

theorem save_depends_on_global_options:
  "fst (save_jit_module_to_bytes reference_saver \<lparr>emit_debug_info = True, other_state = 0\<rparr> 3
          [''README'' \<mapsto> ''hi'']) \<noteq>
   fst (save_jit_module_to_bytes reference_saver \<lparr>emit_debug_info = False, other_state = 0\<rparr> 3
          [''README'' \<mapsto> ''hi''])"
  by (simp add: save_jit_module_to_bytes_def reference_saver_def)

text \<open>
  C8. The write-callback entry point hands the writer the whole artifact and its length,
  the bytes \<^verbatim>\<open>save_jit_module_to_bytes\<close> produces, and calls it once: the state of
  the writer it leaves is the state one call of the writer leaves, the state of the
  process is the one \<^verbatim>\<open>save_jit_module_to_bytes\<close> leaves, and a writer that records
  its calls has recorded exactly one more, with that buffer and that length.
\<close>

theorem write_func_calls_writer_once:
  "save_jit_module_to_write_func env g module extra_files dbg writer_func s =
     (snd (writer_func (fst (save_jit_module_to_bytes env g module extra_files))
             (length (fst (save_jit_module_to_bytes env g module extra_files))) s),
      snd (save_jit_module_to_bytes env g module extra_files))
   \<and> fst (save_jit_module_to_write_func env g module extra_files dbg recording_writer calls) =
     calls @ [(fst (save_jit_module_to_bytes env g module extra_files),
               length (fst (save_jit_module_to_bytes env g module extra_files)))]"
  by (simp add: save_jit_module_to_write_func_def recording_writer_def Let_def
        split: prod.splits)

text \<open>
  C9. The flag \<^verbatim>\<open>save_mobile_debug_info\<close> is accepted and not used: for every
  module, extra-files map and writer, the call with the flag set does what the call with
  the flag cleared does.
\<close>

theorem debug_info_flag_inert:
  "save_jit_module_to_write_func env g module extra_files True writer_func s =
   save_jit_module_to_write_func env g module extra_files False writer_func s"
  by (simp add: save_jit_module_to_write_func_def)

section \<open>Registration\<close>

lemma register_flatbuffer_all_effects:
  "effects (snd (register_flatbuffer_all env s)) = effects s @ effects_of_one_call"
  by (simp add: register_flatbuffer_all_def effects_of_one_call_def Let_def)

lemma register_flatbuffer_all_times_effects:
  "effects (register_flatbuffer_all_times env n s) =
     effects s @ concat (replicate n effects_of_one_call)"
proof (induction n)
  case 0
  show ?case by simp
next
  case (Suc n)
  have "concat (replicate n effects_of_one_call) @ effects_of_one_call =
        concat (replicate (Suc n) effects_of_one_call)"
    by (metis concat_append concat.simps(1) concat.simps(2) append_Nil2
          replicate_append_same replicate_Suc)
  then show ?case
    using Suc.IH by (simp add: register_flatbuffer_all_effects del: replicate.simps)
qed

text \<open>
  C6, as amended. \<^verbatim>\<open>register_flatbuffer_all\<close> has no guard. Every call returns
  true, calls both registration functions and stores both hooks again, so \<open>n\<close> calls
  leave \<open>n\<close> times the effects of one call; what is the same after one call and after
  any number of further calls is the value of the two hooks. The constant
  \<^verbatim>\<open>kFlatbufferSerializerJitInitialized\<close> is the result of one such call, made when
  the library is loaded.
\<close>

theorem registration_repeats_on_every_call:
  "fst (register_flatbuffer_all env s) = True
   \<and> save_jit_module_to (register_flatbuffer_all_times env (Suc n) s) =
       Some Fn_save_jit_module_to_write_func
   \<and> load_jit_module_from_flatbuffer_bytes (register_flatbuffer_all_times env (Suc n) s) =
       Some Fn_parse_and_initialize_jit_module
   \<and> effects (register_flatbuffer_all_times env n s) =
       effects s @ concat (replicate n effects_of_one_call)
   \<and> kFlatbufferSerializerJitInitialized False env s =
       (Some True, register_flatbuffer_all_times env 1 s)"
proof -
  have hooks: "save_jit_module_to (snd (register_flatbuffer_all env t)) =
        Some Fn_save_jit_module_to_write_func
      \<and> load_jit_module_from_flatbuffer_bytes (snd (register_flatbuffer_all env t)) =
        Some Fn_parse_and_initialize_jit_module" for t
    by (simp add: register_flatbuffer_all_def Let_def)
  have result: "fst (register_flatbuffer_all env s) = True"
    by (simp add: register_flatbuffer_all_def Let_def)
  have init: "kFlatbufferSerializerJitInitialized False env s =
      (Some True, register_flatbuffer_all_times env 1 s)"
    by (simp add: kFlatbufferSerializerJitInitialized_def result)
  show ?thesis
    using hooks result init by (simp add: register_flatbuffer_all_times_effects)
qed

text \<open>
  C6 as stated fails: the second call repeats every effect of the first, so two calls
  do not leave what one call leaves.
\<close>

theorem second_registration_repeats_effects:
  "effects (register_flatbuffer_all_times reference_registration 2 registration_start) =
     effects_of_one_call @ effects_of_one_call
   \<and> effects (register_flatbuffer_all_times reference_registration 2 registration_start) \<noteq>
     effects (register_flatbuffer_all_times reference_registration 1 registration_start)"
  by (simp add: numeral_2_eq_2 register_flatbuffer_all_effects registration_start_def
        effects_of_one_call_def)

section \<open>The upgrader stage\<close>

text \<open>
  C7. On a Portable Module whose declared version is the current version the upgrader
  stage changes nothing: the module, and with it the instruction stream, is what it was,
  and a second run of the stage gives what the first gave.
\<close>

theorem upgrade_at_current_version_is_noop:
  "apply_upgraders registry current current pm = pm
   \<and> pm_instructions (apply_upgraders registry current current pm) = pm_instructions pm
   \<and> apply_upgraders registry current current (apply_upgraders registry current current pm) =
       apply_upgraders registry current current pm"
  by (simp add: apply_upgraders_def)

end
